theory Spec2Isabelle
  imports Main "HOL-Library.Extended_Nat"
begin

section \<open>JavaScript strings\<close>

text \<open>
  A JavaScript string is a sequence of UTF-16 code units.  A code unit is modelled by its
  number, so that the CJK characters the parsers test for are ordinary values.  ASCII
  literals of the source are written \<open>str ''...''\<close>.
\<close>

type_synonym jschar = nat
type_synonym jsstring = "jschar list"

definition str :: "string \<Rightarrow> jsstring" where
  "str s = map of_char s"

text \<open>The classes \<open>\s\<close>, \<open>\d\<close> and \<open>.\<close> of ECMAScript regular expressions.\<close>

definition isSpace :: "jschar \<Rightarrow> bool" where
  "isSpace c \<longleftrightarrow>
     c = 9 \<or> c = 10 \<or> c = 11 \<or> c = 12 \<or> c = 13 \<or> c = 32 \<or> c = 160 \<or> c = 5760 \<or>
     (8192 \<le> c \<and> c \<le> 8202) \<or> c = 8232 \<or> c = 8233 \<or> c = 8239 \<or> c = 8287 \<or>
     c = 12288 \<or> c = 65279"

definition isDigit :: "jschar \<Rightarrow> bool" where
  "isDigit c \<longleftrightarrow> 48 \<le> c \<and> c \<le> 57"

definition isDot :: "jschar \<Rightarrow> bool" where
  "isDot c \<longleftrightarrow> \<not> (c = 10 \<or> c = 13 \<or> c = 8232 \<or> c = 8233)"

definition isUpper :: "jschar \<Rightarrow> bool" where
  "isUpper c \<longleftrightarrow> 65 \<le> c \<and> c \<le> 90"

definition isLower :: "jschar \<Rightarrow> bool" where
  "isLower c \<longleftrightarrow> 97 \<le> c \<and> c \<le> 122"

text \<open>\<open>String.prototype.trim\<close> removes the code units of \<open>\s\<close> at both ends.\<close>

definition trim :: "jsstring \<Rightarrow> jsstring" where
  "trim s = rev (dropWhile isSpace (rev (dropWhile isSpace s)))"

text \<open>\<open>s.split(c)\<close> for a separator of one code unit.\<close>

fun split_acc :: "jschar \<Rightarrow> jsstring \<Rightarrow> jsstring \<Rightarrow> jsstring list" where
  "split_acc sep acc [] = [acc]"
| "split_acc sep acc (c # cs) =
     (if c = sep then acc # split_acc sep [] cs else split_acc sep (acc @ [c]) cs)"

definition split_char :: "jschar \<Rightarrow> jsstring \<Rightarrow> jsstring list" where
  "split_char sep s = split_acc sep [] s"

text \<open>\<open>padStart\<close> and \<open>padEnd\<close> with a fill string of one code unit, \<open>slice(-n)\<close>,
  and \<open>slice(a, b)\<close> for \<open>0 \<le> a \<le> b\<close>.\<close>

definition padStart :: "nat \<Rightarrow> jschar \<Rightarrow> jsstring \<Rightarrow> jsstring" where
  "padStart n c s = replicate (n - length s) c @ s"

definition padEnd :: "nat \<Rightarrow> jschar \<Rightarrow> jsstring \<Rightarrow> jsstring" where
  "padEnd n c s = s @ replicate (n - length s) c"

definition slice_last :: "nat \<Rightarrow> jsstring \<Rightarrow> jsstring" where
  "slice_last n s = drop (length s - n) s"

definition slice :: "nat \<Rightarrow> nat \<Rightarrow> jsstring \<Rightarrow> jsstring" where
  "slice a b s = take (b - a) (drop a s)"

text \<open>\<open>String(n)\<close> for a non-negative integer below \<open>10^21\<close>: its decimal digits.\<close>

function String :: "nat \<Rightarrow> jsstring" where
  "String n = (if n < 10 then [48 + n] else String (n div 10) @ [48 + n mod 10])"
  by pat_completeness auto
termination
  by (relation "measure (\<lambda>n. n)") auto

declare String.simps [simp del]

text \<open>\<open>parseInt\<close> on a non-empty string of decimal digits.  The integer written is
  \<open>decimalValue\<close>; the result is the Number for it, that is, the double nearest to it
  with ties to the even significand, and \<open>Infinity\<close> from \<open>2^1024 - 2^970\<close> on.  Such a
  Number is a non-negative integer or \<open>Infinity\<close>, a value of \<open>enat\<close>.\<close>

definition decimalValue :: "jsstring \<Rightarrow> nat" where
  "decimalValue s = foldl (\<lambda>n c. 10 * n + (c - 48)) 0 s"

function bitLength :: "nat \<Rightarrow> nat" where
  "bitLength n = (if n = 0 then 0 else Suc (bitLength (n div 2)))"
  by pat_completeness auto
termination
  by (relation "measure (\<lambda>n. n)") auto

declare bitLength.simps [simp del]

definition toNumber :: "nat \<Rightarrow> enat" where
  "toNumber n =
     (if n < 2 ^ 53 then enat n
      else let e = bitLength n - 53;
               q = n div 2 ^ e;
               r = n mod 2 ^ e;
               m = (if 2 * r > 2 ^ e \<or> (2 * r = 2 ^ e \<and> odd q) then q + 1 else q)
           in if m * 2 ^ e < 2 ^ 1024 then enat (m * 2 ^ e) else \<infinity>)"

definition parseInt :: "jsstring \<Rightarrow> enat" where
  "parseInt s = toNumber (decimalValue s)"

section \<open>Regular expressions\<close>

text \<open>
  The patterns of the source are values of \<open>regex\<close>; \<open>rmatch\<close> is the backtracking
  matcher of ECMAScript: it returns the end states of all the ways a pattern matches at a
  position, in the order in which backtracking tries them, so that the head of the list
  is the match the engine reports.  \<open>Rep greedy lo hi r\<close> is the quantifier \<open>{lo,hi}\<close>
  (\<open>hi = None\<close>: unbounded), lazy when \<open>greedy\<close> is false; as in ECMAScript, an
  iteration beyond the required ones that consumes nothing is rejected.  A state is the
  index reached, the rest of the input, and the capture groups set so far (latest first).
\<close>

datatype regex =
    Eps
  | Chr "jschar \<Rightarrow> bool"
  | Bol
  | Eol
  | Seq regex regex
  | Alt regex regex
  | Grp nat regex
  | Rep bool nat "nat option" regex

type_synonym captures = "(nat \<times> jsstring) list"
type_synonym mstate = "nat \<times> jsstring \<times> captures"

fun rsize :: "regex \<Rightarrow> nat" where
  "rsize (Seq r s) = Suc (rsize r + rsize s)"
| "rsize (Alt r s) = Suc (rsize r + rsize s)"
| "rsize (Grp n r) = Suc (rsize r)"
| "rsize (Rep g lo hi r) = Suc (rsize r)"
| "rsize _ = 0"

fun rlo :: "regex \<Rightarrow> nat" where
  "rlo (Rep g lo hi r) = lo"
| "rlo _ = 0"

fun hi_pred :: "nat option \<Rightarrow> nat option" where
  "hi_pred None = None"
| "hi_pred (Some n) = Some (n - 1)"

function rmatch :: "regex \<Rightarrow> mstate \<Rightarrow> mstate list" where
  "rmatch Eps st = [st]"
| "rmatch (Chr p) (i, cs, g) =
     (case cs of [] \<Rightarrow> [] | c # ds \<Rightarrow> if p c then [(Suc i, ds, g)] else [])"
| "rmatch Bol (i, cs, g) = (if i = 0 then [(i, cs, g)] else [])"
| "rmatch Eol (i, cs, g) = (if cs = [] then [(i, cs, g)] else [])"
| "rmatch (Seq r s) st = concat (map (rmatch s) (rmatch r st))"
| "rmatch (Alt r s) st = rmatch r st @ rmatch s st"
| "rmatch (Grp n r) (i, cs, g) =
     map (\<lambda>(j, ds, h). (j, ds, (n, take (j - i) cs) # h)) (rmatch r (i, cs, g))"
| "rmatch (Rep greedy lo hi r) (i, cs, g) =
     (if hi = Some 0 then [(i, cs, g)]
      else let again = concat (map (rmatch (Rep greedy (lo - 1) (hi_pred hi) r))
                 (filter (\<lambda>(j, ds, h). length ds < length cs \<or> (0 < lo \<and> length ds = length cs))
                    (rmatch r (i, cs, g))))
        in if 0 < lo then again
           else if greedy then again @ [(i, cs, g)]
           else (i, cs, g) # again)"
  by pat_completeness auto
termination
  by (relation "measures [\<lambda>(r, st). rsize r, \<lambda>(r, i, cs, g). length cs, \<lambda>(r, st). rlo r]") auto

declare rmatch.simps [simp del]

text \<open>Notation of the patterns: a literal character, with and without the flag \<open>i\<close>
  (which identifies the two cases of an ASCII letter), sequences, and the quantifiers.\<close>

definition ch :: "char \<Rightarrow> regex" where
  "ch x = Chr (\<lambda>c. c = of_char x)"

definition cu :: "jschar \<Rightarrow> regex" where
  "cu x = Chr (\<lambda>c. c = x)"

definition oneOf :: "jschar list \<Rightarrow> jschar \<Rightarrow> bool" where
  "oneOf xs c \<longleftrightarrow> c \<in> set xs"

definition toLower1 :: "jschar \<Rightarrow> jschar" where
  "toLower1 c = (if isUpper c then c + 32 else c)"

definition chi :: "char \<Rightarrow> regex" where
  "chi x = Chr (\<lambda>c. toLower1 c = toLower1 (of_char x))"

definition seqs :: "regex list \<Rightarrow> regex" where
  "seqs rs = foldr Seq rs Eps"

definition lit :: "string \<Rightarrow> regex" where
  "lit s = seqs (map ch s)"

definition liti :: "string \<Rightarrow> regex" where
  "liti s = seqs (map chi s)"

definition many :: "regex \<Rightarrow> regex" where
  "many r = Rep True 0 None r"

definition many1 :: "regex \<Rightarrow> regex" where
  "many1 r = Rep True 1 None r"

definition lazy :: "regex \<Rightarrow> regex" where
  "lazy r = Rep False 0 None r"

definition lazy1 :: "regex \<Rightarrow> regex" where
  "lazy1 r = Rep False 1 None r"

definition opt :: "regex \<Rightarrow> regex" where
  "opt r = Rep True 0 (Some 1) r"

text \<open>The first match at or after a position: \<open>(start, end, rest, captures)\<close>.\<close>

fun find_at :: "regex \<Rightarrow> nat \<Rightarrow> jsstring \<Rightarrow> (nat \<times> mstate) option" where
  "find_at r i [] = (case rmatch r (i, [], []) of [] \<Rightarrow> None | st # _ \<Rightarrow> Some (i, st))"
| "find_at r i (c # cs) =
     (case rmatch r (i, c # cs, []) of [] \<Rightarrow> find_at r (Suc i) cs | st # _ \<Rightarrow> Some (i, st))"

text \<open>\<open>r.test(s)\<close>, and \<open>s.match(r)\<close> without the flag \<open>g\<close>: the matched text and the
  capture groups.\<close>

definition test :: "regex \<Rightarrow> jsstring \<Rightarrow> bool" where
  "test r s \<longleftrightarrow> find_at r 0 s \<noteq> None"

definition match :: "regex \<Rightarrow> jsstring \<Rightarrow> (jsstring \<times> captures) option" where
  "match r s = (case find_at r 0 s of None \<Rightarrow> None
     | Some (k, j, rest, g) \<Rightarrow> Some (take (j - k) (drop k s), g))"

definition capture :: "nat \<Rightarrow> captures \<Rightarrow> jsstring option" where
  "capture n g = map_of g n"

text \<open>\<open>s.replace(r, f)\<close> without the flag \<open>g\<close>; the replacement may use the groups.\<close>

definition replace1 :: "regex \<Rightarrow> (captures \<Rightarrow> jsstring) \<Rightarrow> jsstring \<Rightarrow> jsstring" where
  "replace1 r f s = (case find_at r 0 s of None \<Rightarrow> s
     | Some (k, j, rest, g) \<Rightarrow> take k s @ f g @ rest)"

text \<open>\<open>s.replace(r, rep)\<close> with the flag \<open>g\<close> and a constant replacement, from index
  \<open>i\<close> on the rest \<open>cs\<close>: after a match that consumed nothing the scan moves on by one
  code unit, which is copied.\<close>

function replace_from :: "regex \<Rightarrow> jsstring \<Rightarrow> nat \<Rightarrow> jsstring \<Rightarrow> jsstring" where
  "replace_from r rep i cs =
     (case find_at r i cs of None \<Rightarrow> cs
      | Some (k, j, rest, g) \<Rightarrow>
          take (k - i) cs @ rep @
          (if length rest < length (drop (k - i) cs) \<and> length rest < length cs
           then replace_from r rep j rest
           else (case drop (k - i) cs of [] \<Rightarrow> []
                 | c # ds \<Rightarrow> if length ds < length cs then c # replace_from r rep (Suc k) ds
                            else [])))"
  by pat_completeness auto
termination
  by (relation "measure (\<lambda>(r, rep, i, cs). length cs)") auto

declare replace_from.simps [simp del]

definition replace_all :: "regex \<Rightarrow> jsstring \<Rightarrow> jsstring \<Rightarrow> jsstring" where
  "replace_all r rep s = replace_from r rep 0 s"

text \<open>\<open>s.matchAll(r)\<close>: the matched text and groups of each match, in order.\<close>

function matchAll_from :: "regex \<Rightarrow> nat \<Rightarrow> jsstring \<Rightarrow> (jsstring \<times> captures) list" where
  "matchAll_from r i cs =
     (case find_at r i cs of None \<Rightarrow> []
      | Some (k, j, rest, g) \<Rightarrow>
          (take (j - k) (drop (k - i) cs), g) #
          (if length rest < length (drop (k - i) cs) \<and> length rest < length cs
           then matchAll_from r j rest
           else (case drop (k - i) cs of [] \<Rightarrow> []
                 | c # ds \<Rightarrow> if length ds < length cs then matchAll_from r (Suc k) ds
                            else [])))"
  by pat_completeness auto
termination
  by (relation "measure (\<lambda>(r, i, cs). length cs)") auto

declare matchAll_from.simps [simp del]

definition matchAll :: "regex \<Rightarrow> jsstring \<Rightarrow> (jsstring \<times> captures) list" where
  "matchAll r s = matchAll_from r 0 s"

text \<open>\<open>s.split(r)\<close> for a pattern without capture groups: at index \<open>q\<close>, with \<open>piece\<close>
  the text since the last separator, the pattern is tried at \<open>q\<close> only; a match that is
  empty and ends where the piece began does not split.\<close>

function split_from :: "regex \<Rightarrow> nat \<Rightarrow> jsstring \<Rightarrow> jsstring \<Rightarrow> jsstring list" where
  "split_from r q piece [] = [piece]"
| "split_from r q piece (c # cs) =
     (case rmatch r (q, c # cs, []) of
        [] \<Rightarrow> split_from r (Suc q) (piece @ [c]) cs
      | (e, rest, g) # _ \<Rightarrow>
          if length rest < Suc (length cs) then piece # split_from r e [] rest
          else if piece = [] then split_from r (Suc q) [c] cs
          else piece # split_from r (Suc q) [c] cs)"
  by pat_completeness auto
termination
  by (relation "measure (\<lambda>(r, q, piece, cs). length cs)") auto

declare split_from.simps [simp del]

definition split_re :: "regex \<Rightarrow> jsstring \<Rightarrow> jsstring list" where
  "split_re r s =
     (if s = [] then (if rmatch r (0, [], []) = [] then [[]] else [])
      else split_from r 0 [] s)"

section \<open>The document model\<close>

datatype block_type = Heading | Paragraph

text \<open>A content block \<open>{id, type, text, level?, chapter?, chapterIndex?}\<close>; an absent
  field is \<open>None\<close>.\<close>

record block =
  b_id :: jsstring
  b_type :: block_type
  b_text :: jsstring
  b_level :: "enat option"
  b_chapter :: "jsstring option"
  b_chapterIndex :: "nat option"

text \<open>A table-of-contents entry \<open>{title, page?, level, id?, order?}\<close>.\<close>

record tocItem =
  t_title :: jsstring
  t_page :: "enat option"
  t_level :: nat
  t_id :: "jsstring option"
  t_order :: "nat option"

section \<open>txtParser.js\<close>

text \<open>The patterns of the plain-text parser.  The code units above 127 are
  U+76EE (30446) and U+5F55 (24405), the two characters of the word for a table of contents;
  U+3001 (12289), the ideographic comma; U+7B2C (31532), the ordinal prefix; the numerals
  U+4E00, U+4E8C, U+4E09, U+56DB, U+4E94, U+516D, U+4E03, U+516B, U+4E5D, U+5341; and the
  section words U+7AE0 (31456), U+8282 (33410), U+90E8 (37096), U+5206 (20998),
  U+7BC7 (31687), U+5377 (21367).\<close>

definition cjkNumeral :: "jschar \<Rightarrow> bool" where
  "cjkNumeral c \<longleftrightarrow>
     oneOf [19968, 20108, 19977, 22235, 20116, 20845, 19971, 20843, 20061, 21313] c"

definition sectionWord :: "jschar \<Rightarrow> bool" where
  "sectionWord c \<longleftrightarrow> oneOf [31456, 33410, 37096, 20998, 31687, 21367] c"

text \<open>\<^verbatim>\<open>/^[\u76ee\u76ee\u5f55\u5f55]{1,2}$/i\<close> and \<^verbatim>\<open>/^\u76ee\s*\u5f55$/i\<close>\<close>

definition re_tocWord :: regex where
  "re_tocWord = seqs [Bol, Rep True 1 (Some 2) (Chr (oneOf [30446, 30446, 24405, 24405])), Eol]"

definition re_tocWordSpaced :: regex where
  "re_tocWordSpaced = seqs [Bol, cu 30446, many (Chr isSpace), cu 24405, Eol]"

text \<open>\<^verbatim>\<open>/^(.+?)\s+\.{3,}\s*(\d+)$/\<close> and \<^verbatim>\<open>/^(\d+[\.\u3001]\s*.+?)$/\<close>\<close>

definition re_tocDotted :: regex where
  "re_tocDotted = seqs [Bol, Grp 1 (lazy1 (Chr isDot)), many1 (Chr isSpace),
     Rep True 3 None (ch CHR ''.''), many (Chr isSpace), Grp 2 (many1 (Chr isDigit)), Eol]"

definition re_tocNumbered :: regex where
  "re_tocNumbered = seqs [Bol, Grp 1 (seqs [many1 (Chr isDigit), Chr (oneOf [46, 12289]),
     many (Chr isSpace), lazy1 (Chr isDot)]), Eol]"

text \<open>\<^verbatim>\<open>/^[A-Z\s]+$/\<close>, \<^verbatim>\<open>/^\d+[\.\u3001]\s*/\<close> and
  \<^verbatim>\<open>/^\u7b2c[\u4e00\u4e8c\u4e09\u56db\u4e94\u516d\u4e03\u516b\u4e5d\u5341\d]+[\u7ae0\u8282\u90e8\u5206\u7bc7\u5377]/i\<close>\<close>

definition re_allCaps :: regex where
  "re_allCaps = seqs [Bol, many1 (Chr (\<lambda>c. isUpper c \<or> isSpace c)), Eol]"

definition re_numbered :: regex where
  "re_numbered = seqs [Bol, many1 (Chr isDigit), Chr (oneOf [46, 12289]), many (Chr isSpace)]"

definition re_chapter :: regex where
  "re_chapter = seqs [Bol, cu 31532, many1 (Chr (\<lambda>c. cjkNumeral c \<or> isDigit c)),
     Grp 1 (Chr sectionWord)]"

text \<open>\<^verbatim>\<open>/^(\d+[\.\u3001]\s*)+/\<close> and \<^verbatim>\<open>/[\.\u3001]/\<close>\<close>

definition re_numberPrefix :: regex where
  "re_numberPrefix = seqs [Bol, many1 (Grp 1 (seqs [many1 (Chr isDigit),
     Chr (oneOf [46, 12289]), many (Chr isSpace)]))]"

definition re_separator :: regex where
  "re_separator = Chr (oneOf [46, 12289])"

definition levelByLength :: "jsstring \<Rightarrow> nat" where
  "levelByLength text = (if length text < 20 then 1 else if length text < 40 then 2 else 3)"

text \<open>\<open>estimateHeadingLevel\<close>: the depth of a numeric prefix, else the section word after
  an ordinal (a capture of one code unit never equals the two-unit word compared with in
  the third test), else the length of the text.\<close>

definition estimateHeadingLevel :: "jsstring \<Rightarrow> nat" where
  "estimateHeadingLevel text =
     (case match re_numberPrefix text of
        Some (m0, g) \<Rightarrow> length (split_re re_separator m0) - 1
      | None \<Rightarrow>
         (case match re_chapter text of
            Some (m0, g) \<Rightarrow>
              (let type = capture 1 g in
               if type = Some [31456] \<or> type = Some [21367] then 1
               else if type = Some [33410] \<or> type = Some [31687] then 2
               else if type = Some [37096, 20998] then 3
               else levelByLength text)
          | None \<Rightarrow> levelByLength text))"

text \<open>\<open>isLikelyHeading(line, nextLine)\<close>; \<open>nextLine\<close> is \<open>None\<close> past the last line.
  The test \<open>nextLine && nextLine.trim().length === 0\<close> needs a next line that is not
  the empty string.  U+3002 (12290) and U+FF0C (65292) are the ideographic full stop and
  the fullwidth comma.\<close>

definition isLikelyHeading :: "jsstring \<Rightarrow> jsstring option \<Rightarrow> bool" where
  "isLikelyHeading line nextLine =
     (if length line > 100 then False
      else if test re_allCaps line \<and> length line < 50 \<and> length line > 3 then True
      else if test re_numbered line then True
      else if test re_chapter line then True
      else if (case nextLine of None \<Rightarrow> False
               | Some n \<Rightarrow> n \<noteq> [] \<and> length (trim n) = 0) then True
      else if length line < 50 \<and> 12290 \<notin> set line \<and> 65292 \<notin> set line then True
      else False)"

record txt_state =
  txt_paragraphs :: "block list"
  txt_toc :: "tocItem list"
  currentParagraph :: jsstring
  paragraphIndex :: nat
  inTOCSection :: bool

text \<open>The entry pushed for a match of one of the two entry patterns:
  \<open>title: m[1] || m[0]\<close>, \<open>page: m[2] ? parseInt(m[2]) : null\<close>.\<close>

definition tocEntry :: "jsstring \<times> captures \<Rightarrow> tocItem" where
  "tocEntry m =
     (let title = (case capture 1 (snd m) of Some g1 \<Rightarrow> if g1 \<noteq> [] then g1 else fst m
                   | None \<Rightarrow> fst m)
      in \<lparr> t_title = title,
           t_page = (case capture 2 (snd m) of
                       Some g2 \<Rightarrow> if g2 \<noteq> [] then Some (parseInt g2) else None
                     | None \<Rightarrow> None),
           t_level = estimateHeadingLevel title, t_id = None, t_order = None \<rparr>)"

definition tocMatch :: "jsstring \<Rightarrow> (jsstring \<times> captures) option" where
  "tocMatch line = (case match re_tocDotted line of Some m \<Rightarrow> Some m
                    | None \<Rightarrow> match re_tocNumbered line)"

text \<open>The block pushed when the pending paragraph is not blank; the pending text is
  reset in the loop, as the source does.\<close>

definition pushParagraph :: "txt_state \<Rightarrow> txt_state" where
  "pushParagraph s =
     (if length (trim (currentParagraph s)) > 0
      then s\<lparr> txt_paragraphs := txt_paragraphs s @
                 [\<lparr> b_id = str ''para_'' @ String (paragraphIndex s), b_type = Paragraph,
                    b_text = trim (currentParagraph s), b_level = None,
                    b_chapter = None, b_chapterIndex = None \<rparr>],
              paragraphIndex := Suc (paragraphIndex s),
              currentParagraph := [] \<rparr>
      else s)"

definition pushHeading :: "jsstring \<Rightarrow> txt_state \<Rightarrow> txt_state" where
  "pushHeading line s =
     s\<lparr> txt_paragraphs := txt_paragraphs s @
          [\<lparr> b_id = str ''heading_'' @ String (paragraphIndex s), b_type = Heading,
             b_text = line, b_level = Some (enat (estimateHeadingLevel line)),
             b_chapter = None, b_chapterIndex = None \<rparr>],
        paragraphIndex := Suc (paragraphIndex s) \<rparr>"

text \<open>The part of the loop body after the table-of-contents tests.\<close>

definition txt_body :: "txt_state \<Rightarrow> jsstring \<Rightarrow> jsstring option \<Rightarrow> txt_state" where
  "txt_body s line nextLine =
     (if length line = 0 then pushParagraph s
      else if isLikelyHeading line nextLine then pushHeading line (pushParagraph s)
      else s\<lparr> currentParagraph :=
                currentParagraph s @ (if currentParagraph s \<noteq> [] then str '' '' else []) @ line \<rparr>)"

text \<open>One turn of the loop on \<open>lines[i]\<close>, with \<open>lines[i + 1]\<close>.\<close>

definition txt_step :: "txt_state \<Rightarrow> jsstring \<Rightarrow> jsstring option \<Rightarrow> txt_state" where
  "txt_step s raw nextLine =
     (let line = trim raw in
      if test re_tocWord line \<or> test re_tocWordSpaced line then s\<lparr> inTOCSection := True \<rparr>
      else if inTOCSection s then
        (case tocMatch line of
           Some m \<Rightarrow> s\<lparr> txt_toc := txt_toc s @ [tocEntry m] \<rparr>
         | None \<Rightarrow>
            txt_body (if length line = 0 \<or> length line > 50 then s\<lparr> inTOCSection := False \<rparr> else s)
              line nextLine)
      else txt_body s line nextLine)"

fun txt_loop :: "txt_state \<Rightarrow> jsstring list \<Rightarrow> txt_state" where
  "txt_loop s [] = s"
| "txt_loop s (raw # rest) =
     txt_loop (txt_step s raw (case rest of [] \<Rightarrow> None | n # _ \<Rightarrow> Some n)) rest"

definition txt_init :: txt_state where
  "txt_init = \<lparr> txt_paragraphs = [], txt_toc = [], currentParagraph = [], paragraphIndex = 0,
                inTOCSection = False \<rparr>"

definition extractStructureFromText :: "jsstring \<Rightarrow> block list \<times> tocItem list" where
  "extractStructureFromText text =
     (let s = pushParagraph (txt_loop txt_init (split_char 10 text))
      in (txt_paragraphs s, txt_toc s))"

section \<open>pdfParser.js\<close>

text \<open>\<^verbatim>\<open>/^(\u7b2c[\u4e00\u4e8c\u4e09\u56db\u4e94\u516d\u4e03\u516b\u4e5d\u5341\u767e]+\u7ae0|\u7b2c\d+\u8282|Chapter\s+\d+)/\<close>,
  \<^verbatim>\<open>/^\d+(\.|\u3001)\s*/\<close>; U+767E (30334) is the numeral hundred.\<close>

definition cjkNumeral100 :: "jschar \<Rightarrow> bool" where
  "cjkNumeral100 c \<longleftrightarrow>
     oneOf [19968, 20108, 19977, 22235, 20116, 20845, 19971, 20843, 20061, 21313, 30334] c"

definition re_cjkChapter :: regex where
  "re_cjkChapter = seqs [cu 31532, many1 (Chr cjkNumeral100), cu 31456]"

definition re_cjkSection :: regex where
  "re_cjkSection = seqs [cu 31532, many1 (Chr isDigit), cu 33410]"

definition re_pdfMarker :: regex where
  "re_pdfMarker = seqs [Bol, Grp 1 (Alt re_cjkChapter (Alt re_cjkSection
     (seqs [lit ''Chapter'', many1 (Chr isSpace), many1 (Chr isDigit)])))]"

definition re_dotOrComma :: regex where
  "re_dotOrComma = Alt (ch CHR ''.'') (cu 12289)"

definition re_pdfNumbered :: regex where
  "re_pdfNumbered = seqs [Bol, many1 (Chr isDigit), Grp 1 re_dotOrComma, many (Chr isSpace)]"

text \<open>\<^verbatim>\<open>/^(\d+(\.|\u3001))+?/\<close>\<close>

definition re_pdfPrefix :: regex where
  "re_pdfPrefix = seqs [Bol, lazy1 (Grp 1 (seqs [many1 (Chr isDigit), Grp 2 re_dotOrComma]))]"

definition isHeading :: "jsstring \<Rightarrow> jsstring \<Rightarrow> bool" where
  "isHeading line next =
     (if test re_pdfMarker line then True
      else if test re_allCaps line \<and> length line < 50 then True
      else if test re_pdfNumbered line then True
      else if length next = 0 then True
      else False)"

definition pdf_estimateHeadingLevel :: "jsstring \<Rightarrow> nat" where
  "pdf_estimateHeadingLevel line =
     (if test re_cjkChapter line then 1
      else if test re_cjkSection line then 2
      else (case match re_pdfPrefix line of
              Some (m0, g) \<Rightarrow> length (split_re re_dotOrComma m0)
            | None \<Rightarrow> 3))"

record pdf_state =
  pdf_paragraphs :: "block list"
  current :: jsstring
  next_id :: nat

definition pdf_flush :: "pdf_state \<Rightarrow> pdf_state" where
  "pdf_flush s =
     (if current s \<noteq> []
      then s\<lparr> pdf_paragraphs := pdf_paragraphs s @
                 [\<lparr> b_id = str ''para_'' @ String (next_id s), b_type = Paragraph,
                    b_text = current s, b_level = None, b_chapter = None,
                    b_chapterIndex = None \<rparr>],
              next_id := Suc (next_id s), current := [] \<rparr>
      else s)"

definition pdf_heading :: "jsstring \<Rightarrow> pdf_state \<Rightarrow> pdf_state" where
  "pdf_heading line s =
     s\<lparr> pdf_paragraphs := pdf_paragraphs s @
          [\<lparr> b_id = str ''heading_'' @ String (next_id s), b_type = Heading, b_text = line,
             b_level = Some (enat (pdf_estimateHeadingLevel line)), b_chapter = None,
             b_chapterIndex = None \<rparr>],
        next_id := Suc (next_id s) \<rparr>"

text \<open>One turn of the loop of \<open>extractParagraphs\<close>: \<open>next\<close> is
  \<open>lines[i + 1]?.trim() || ''\<close>.\<close>

definition pdf_step :: "pdf_state \<Rightarrow> jsstring \<Rightarrow> jsstring option \<Rightarrow> pdf_state" where
  "pdf_step s raw nextLine =
     (let line = trim raw in
      if line = [] then s
      else let next = (case nextLine of None \<Rightarrow> [] | Some n \<Rightarrow> trim n) in
        if isHeading line next then pdf_heading line (pdf_flush s)
        else s\<lparr> current := current s @ (if current s \<noteq> [] then str '' '' else []) @ line \<rparr>)"

fun pdf_loop :: "pdf_state \<Rightarrow> jsstring list \<Rightarrow> pdf_state" where
  "pdf_loop s [] = s"
| "pdf_loop s (raw # rest) =
     pdf_loop (pdf_step s raw (case rest of [] \<Rightarrow> None | n # _ \<Rightarrow> Some n)) rest"

text \<open>\<open>extractParagraphs(text)\<close>; the lines are \<^verbatim>\<open>text.split(/\r?\n/)\<close>.\<close>

definition extractParagraphs :: "jsstring \<Rightarrow> block list" where
  "extractParagraphs text =
     pdf_paragraphs (pdf_flush (pdf_loop \<lparr> pdf_paragraphs = [], current = [], next_id = 0 \<rparr>
        (split_re (seqs [opt (cu 13), cu 10]) text)))"

section \<open>epubParser.js\<close>

definition notGt :: "jschar \<Rightarrow> bool" where
  "notGt c \<longleftrightarrow> c \<noteq> of_char CHR ''>''"

definition anyUnit :: "jschar \<Rightarrow> bool" where
  "anyUnit c \<longleftrightarrow> True"

definition oneToSix :: "jschar \<Rightarrow> bool" where
  "oneToSix c \<longleftrightarrow> of_char CHR ''1'' \<le> c \<and> c \<le> of_char CHR ''6''"

text \<open>\<^verbatim>\<open>/<script[^>]*>[\s\S]*?<\/script>/gi\<close> and the same for \<open>style\<close>\<close>

definition re_element :: "string \<Rightarrow> regex" where
  "re_element name = seqs [liti (''<'' @ name), many (Chr notGt), ch CHR ''>'',
     lazy (Chr anyUnit), liti (''</'' @ name @ ''>'')]"

text \<open>\<^verbatim>\<open>/<h([1-6])[^>]*>(.*?)<\/h[1-6]>/gi\<close> and \<^verbatim>\<open>/<p[^>]*>(.*?)<\/p>/gi\<close>\<close>

definition re_h :: regex where
  "re_h = seqs [liti ''<h'', Grp 1 (Chr oneToSix), many (Chr notGt), ch CHR ''>'',
     Grp 2 (lazy (Chr isDot)), liti ''</h'', Chr oneToSix, ch CHR ''>'']"

definition re_p :: regex where
  "re_p = seqs [liti ''<p'', many (Chr notGt), ch CHR ''>'', Grp 1 (lazy (Chr isDot)),
     liti ''</p>'']"

text \<open>\<open>stripHTML\<close>: tags become a space, five entities are decoded, runs of white space
  become one space, and the result is trimmed.\<close>

definition stripHTML :: "jsstring \<Rightarrow> jsstring" where
  "stripHTML html =
     trim (replace_all (many1 (Chr isSpace)) (str '' '')
       (replace_all (lit ''&gt;'') (str ''>'')
         (replace_all (lit ''&lt;'') (str ''<'')
           (replace_all (lit ''&amp;'') (str ''&'')
             (replace_all (lit ''&quot;'') [34]
               (replace_all (lit ''&nbsp;'') (str '' '')
                 (replace_all (seqs [ch CHR ''<'', many1 (Chr notGt), ch CHR ''>'']) (str '' '')
                    html)))))))"

definition the_group :: "nat \<Rightarrow> captures \<Rightarrow> jsstring" where
  "the_group n g = (case capture n g of None \<Rightarrow> [] | Some s \<Rightarrow> s)"

text \<open>The bodies of the two \<open>for\<close> loops and of the \<open>forEach\<close> of
  \<open>extractParagraphsFromHTML\<close>, on the array built so far.\<close>

definition addHeading ::
  "jsstring \<Rightarrow> nat \<Rightarrow> block list \<Rightarrow> jsstring \<times> captures \<Rightarrow> block list" where
  "addHeading chapterId chapterIndex paragraphs m =
     paragraphs @
       [\<lparr> b_id = chapterId @ str ''_heading_'' @ String (length paragraphs),
          b_type = Heading, b_text = stripHTML (the_group 2 (snd m)),
          b_level = Some (parseInt (the_group 1 (snd m))),
          b_chapter = Some chapterId, b_chapterIndex = Some chapterIndex \<rparr>]"

definition addParagraph ::
  "jsstring \<Rightarrow> nat \<Rightarrow> block list \<Rightarrow> jsstring \<times> captures \<Rightarrow> block list" where
  "addParagraph chapterId chapterIndex paragraphs m =
     (let paraText = stripHTML (the_group 1 (snd m)) in
      if length (trim paraText) > 0
      then paragraphs @
         [\<lparr> b_id = chapterId @ str ''_para_'' @ String (length paragraphs),
            b_type = Paragraph, b_text = trim paraText, b_level = None,
            b_chapter = Some chapterId, b_chapterIndex = Some chapterIndex \<rparr>]
      else paragraphs)"

definition addLine ::
  "jsstring \<Rightarrow> nat \<Rightarrow> block list \<Rightarrow> jsstring \<times> nat \<Rightarrow> block list" where
  "addLine chapterId chapterIndex paragraphs li =
     (if length (trim (fst li)) > 0
      then paragraphs @
         [\<lparr> b_id = chapterId @ str ''_para_'' @ String (snd li),
            b_type = Paragraph, b_text = trim (fst li), b_level = None,
            b_chapter = Some chapterId, b_chapterIndex = Some chapterIndex \<rparr>]
      else paragraphs)"

definition extractParagraphsFromHTML :: "jsstring \<Rightarrow> jsstring \<Rightarrow> nat \<Rightarrow> block list" where
  "extractParagraphsFromHTML html chapterId chapterIndex =
     (let text = replace_all (re_element ''style'') [] (replace_all (re_element ''script'') [] html);
          paragraphs1 = foldl (addHeading chapterId chapterIndex) [] (matchAll re_h text);
          paragraphs2 = foldl (addParagraph chapterId chapterIndex) paragraphs1 (matchAll re_p text)
      in if length paragraphs2 = 0
         then let lines = filter (\<lambda>line. length (trim line) > 0)
                            (split_char 10 (stripHTML text))
              in foldl (addLine chapterId chapterIndex) paragraphs2
                   (zip lines [0 ..< length lines])
         else paragraphs2)"

text \<open>\<open>extractContent\<close> appends the blocks of each fragment whose text was read, in the
  order in which the reads complete; \<open>chapterIndex\<close> counts them.  A fragment is its
  identifier and its markup.\<close>

fun extractContent_from :: "nat \<Rightarrow> (jsstring \<times> jsstring) list \<Rightarrow> block list" where
  "extractContent_from chapterIndex [] = []"
| "extractContent_from chapterIndex ((chapterId, html) # rest) =
     extractParagraphsFromHTML html chapterId chapterIndex @
     extractContent_from (Suc chapterIndex) rest"

definition extractContent :: "(jsstring \<times> jsstring) list \<Rightarrow> block list" where
  "extractContent flow = extractContent_from 0 flow"

section \<open>parser.js: the document structure\<close>

text \<open>JavaScript values, as far as the metadata of a document and the argument of
  \<open>safeParseDate\<close> need them; \<open>JObj\<close> stands for an object without a method
  \<open>replace\<close>.  An object literal is a map from property names to values.\<close>

datatype jsval = JUndefined | JNull | JBool bool | JNum int | JStr jsstring | JObj

fun truthy :: "jsval \<Rightarrow> bool" where
  "truthy JUndefined = False"
| "truthy JNull = False"
| "truthy (JBool b) = b"
| "truthy (JNum n) = (n \<noteq> 0)"
| "truthy (JStr s) = (s \<noteq> [])"
| "truthy JObj = True"

type_synonym object = "string \<rightharpoonup> jsval"

definition getProp :: "object \<Rightarrow> string \<Rightarrow> jsval" where
  "getProp obj k = (case obj k of None \<Rightarrow> JUndefined | Some v \<Rightarrow> v)"

definition or_else :: "jsval \<Rightarrow> jsval \<Rightarrow> jsval" where
  "or_else a b = (if truthy a then a else b)"

record image =
  img_id :: jsstring
  href :: jsstring
  mediaType :: jsstring
  img_size :: "nat option"
  savedPath :: "jsstring option"
  img_error :: "jsstring option"

record stats =
  totalParagraphs :: nat
  totalImages :: nat
  totalTocItems :: nat
  totalWords :: nat

record document =
  metadata :: object
  tableOfContents :: "tocItem list"
  content :: "block list"
  images :: "image list"
  stats :: stats

text \<open>\<^verbatim>\<open>/\s+/\<close>, and the summand of \<open>totalWords\<close>:
  \<^verbatim>\<open>item.text ? item.text.split(/\s+/).length : 0\<close>.\<close>

definition re_spaces :: regex where
  "re_spaces = many1 (Chr isSpace)"

definition wordsOf :: "block \<Rightarrow> nat" where
  "wordsOf item = (if b_text item \<noteq> [] then length (split_re re_spaces (b_text item)) else 0)"

text \<open>The eight properties written before the spread \<open>...metadata\<close>, which then
  overwrites each of them that the argument has as an own property.\<close>

definition metadataDefaults :: "object \<Rightarrow> object" where
  "metadataDefaults m = map_of
     [(''title'', or_else (getProp m ''title'') (JStr [])),
      (''author'', or_else (getProp m ''author'') (JStr [])),
      (''creator'', or_else (getProp m ''creator'') (JStr [])),
      (''subject'', or_else (getProp m ''subject'') (JStr [])),
      (''keywords'', or_else (getProp m ''keywords'') (JStr [])),
      (''creationDate'', or_else (getProp m ''creationDate'') JNull),
      (''modificationDate'', or_else (getProp m ''modificationDate'') JNull),
      (''language'', or_else (getProp m ''language'') (JStr (str ''zh-CN'')))]"

definition createDocumentStructure ::
  "object \<Rightarrow> block list \<Rightarrow> image list \<Rightarrow> tocItem list \<Rightarrow> document" where
  "createDocumentStructure m cont imgs toc =
     \<lparr> metadata = metadataDefaults m ++ m,
       tableOfContents = toc,
       content = cont,
       images = imgs,
       stats = \<lparr> totalParagraphs = length cont,
                 totalImages = length imgs,
                 totalTocItems = length toc,
                 totalWords = foldl (\<lambda>sum item. sum + wordsOf item) 0 cont \<rparr> \<rparr>"

section \<open>Identifiers\<close>

text \<open>\<open>generateUniqueId\<close> of the exporter: \<open>timestamp\<close> is the value of
  \<open>Date.now()\<close>, \<open>idCounter\<close> the module variable; the result is the identifier and
  the new value of the variable.\<close>

definition generateUniqueId :: "nat \<Rightarrow> nat \<Rightarrow> jsstring \<times> nat" where
  "generateUniqueId timestamp idCounter =
     (let idCounter' = (idCounter + 1) mod 10000;
          timestampPart = slice_last 12 (String timestamp);
          counterPart = padStart 4 48 (String idCounter')
      in (timestampPart @ counterPart, idCounter'))"

text \<open>\<open>generateUniqueId\<close> of uniqueId.js: \<open>random\<close> is the value of
  \<open>Math.floor(Math.random() * 10)\<close>, an integer from 0 to 9; there is no module
  variable.\<close>

definition uniqueId_generateUniqueId :: "nat \<Rightarrow> nat \<Rightarrow> jsstring" where
  "uniqueId_generateUniqueId timestamp random =
     (let idCounter = (random + 1) mod 10000;
          timestampPart = slice_last 12 (String timestamp);
          counterPart = padStart 4 48 (String idCounter)
      in timestampPart @ counterPart)"

section \<open>parser.js: the exporter\<close>

text \<open>\<open>toLowerCase\<close>.  The code units whose lower case has an ASCII letter are the
  letters A to Z, U+212A (the Kelvin sign, 8490), which becomes \<open>k\<close>, and U+0130 (304),
  which becomes \<open>i\<close> followed by U+0307 (775).  Every other cased character has a lower
  case outside ASCII and is kept here as it is; this makes no difference where the result
  is compared with ASCII words or stripped of all but \<open>a-z\<close>, \<open>0-9\<close> and white space,
  the two uses the exporter makes of it.\<close>

definition toLowerUnit :: "jschar \<Rightarrow> jsstring" where
  "toLowerUnit c = (if isUpper c then [c + 32]
                    else if c = 8490 then [107]
                    else if c = 304 then [105, 775]
                    else [c])"

definition toLowerCase :: "jsstring \<Rightarrow> jsstring" where
  "toLowerCase s = concat (map toLowerUnit s)"

definition includes_str :: "jsstring \<Rightarrow> jsstring \<Rightarrow> bool" where
  "includes_str s needle \<longleftrightarrow>
     list_ex (\<lambda>k. take (length needle) (drop k s) = needle) [0 ..< Suc (length s)]"

definition excludeKeywords :: "jsstring list" where
  "excludeKeywords = map str [''cover'', ''title page'', ''copyright'', ''contents'', ''toc'',
     ''dedication'', ''preview'', ''special preview'']"

definition excludeIds :: "jsstring list" where
  "excludeIds = map str [''cvi'', ''cvt'', ''tp'', ''cop'', ''toc'', ''ded'', ''fm1'', ''fm2'',
     ''fm3'', ''bm1'', ''c011'']"

definition isValidChapter :: "tocItem \<Rightarrow> bool" where
  "isValidChapter tocItem =
     (let title = toLowerCase (t_title tocItem);
          id = toLowerCase (case t_id tocItem of None \<Rightarrow> [] | Some i \<Rightarrow> i)
      in if id \<in> set excludeIds then False
         else \<not> list_ex (\<lambda>keyword. includes_str title keyword) excludeKeywords)"

text \<open>\<^verbatim>\<open>/[^a-z0-9\s]/g\<close>, \<^verbatim>\<open>/\s+/g\<close> and \<^verbatim>\<open>/^chapter\s*(\d+)/i\<close>\<close>

definition re_notSlugUnit :: regex where
  "re_notSlugUnit = Chr (\<lambda>c. \<not> (isLower c \<or> isDigit c \<or> isSpace c))"

definition re_chapterN :: regex where
  "re_chapterN = seqs [Bol, liti ''chapter'', many (Chr isSpace), Grp 1 (many1 (Chr isDigit))]"

definition chapterNameToFileName :: "jsstring \<Rightarrow> jsstring" where
  "chapterNameToFileName name =
     take 50
       (replace1 re_chapterN (\<lambda>g. str ''chapter_'' @ the_group 1 g)
         (replace_all re_spaces (str ''_'')
           (replace_all re_notSlugUnit [] (toLowerCase name))))"

text \<open>\<open>a || b\<close> on strings.\<close>

definition str_or :: "jsstring \<Rightarrow> jsstring \<Rightarrow> jsstring" where
  "str_or a b = (if a \<noteq> [] then a else b)"

record chapterInfo =
  c_name :: jsstring
  c_file :: jsstring
  c_index :: nat
  c_zh :: jsstring
  c_tocId :: "jsstring option"

text \<open>The chapters of the filtered table of contents.\<close>

definition tocChapter :: "tocItem \<times> nat \<Rightarrow> chapterInfo" where
  "tocChapter ti =
     (let tocItem = fst ti; index = snd ti in
      \<lparr> c_name = str_or (t_title tocItem) (str ''Chapter '' @ String (index + 1)),
        c_file = str_or (chapterNameToFileName (t_title tocItem))
                   (str ''chapter_'' @ String (index + 1)),
        c_index = index + 1, c_zh = [], c_tocId = t_id tocItem \<rparr>)"

definition tocChapters :: "tocItem list \<Rightarrow> chapterInfo list" where
  "tocChapters toc =
     (let allTocItems = filter isValidChapter toc
      in map tocChapter (zip allTocItems [0 ..< length allTocItems]))"

text \<open>The chapters found in the content when the table of contents gives none:
  \<open>chapterMap\<close> is a \<open>Map\<close>, here the list of its entries in insertion order.\<close>

definition addContentChapter ::
  "(jsstring \<times> chapterInfo) list \<Rightarrow> block \<Rightarrow> (jsstring \<times> chapterInfo) list" where
  "addContentChapter chapterMap item =
     (case b_chapter item of
        None \<Rightarrow> chapterMap
      | Some cid \<Rightarrow>
         if cid \<noteq> [] \<and> map_of chapterMap cid = None then
           (let size = length chapterMap;
                chapterName = str_or (b_text item)
                  (str ''Chapter '' @ String
                     (case b_chapterIndex item of
                        None \<Rightarrow> size + 1
                      | Some i \<Rightarrow> if i \<noteq> 0 then i else size + 1));
                fileName = str_or (chapterNameToFileName chapterName)
                             (str ''chapter_'' @ String (size + 1))
            in chapterMap @
                 [(cid, \<lparr> c_name = chapterName, c_file = fileName, c_index = size + 1,
                         c_zh = [], c_tocId = Some cid \<rparr>)])
         else chapterMap)"

definition contentChapters :: "block list \<Rightarrow> chapterInfo list" where
  "contentChapters cont = map snd (foldl addContentChapter [] cont)"

definition defaultChapter :: chapterInfo where
  "defaultChapter = \<lparr> c_name = str ''Chapter 1'', c_file = str ''chapter_1'', c_index = 1,
                       c_zh = [], c_tocId = Some (str ''default'') \<rparr>"

definition validChapters :: "document \<Rightarrow> chapterInfo list" where
  "validChapters doc =
     (let v1 = tocChapters (tableOfContents doc);
          v2 = (if length v1 = 0 then v1 @ contentChapters (content doc) else v1)
      in if length v2 = 0 then v2 @ [defaultChapter] else v2)"

text \<open>\<open>contentByChapter\<close>: a \<open>Map\<close> from \<open>tocId\<close> (\<open>None\<close> is the key
  \<open>undefined\<close>) to the blocks of the chapter.\<close>

type_synonym buckets = "jsstring option \<rightharpoonup> block list"

definition initBuckets :: "chapterInfo list \<Rightarrow> buckets" where
  "initBuckets chapters = foldl (\<lambda>m chapter. m(c_tocId chapter \<mapsto> [])) Map.empty chapters"

definition defaultChapterId :: "chapterInfo list \<Rightarrow> jsstring" where
  "defaultChapterId chapters =
     (case chapters of
        [] \<Rightarrow> str ''default''
      | c # _ \<Rightarrow> (case c_tocId c of None \<Rightarrow> str ''default''
                  | Some t \<Rightarrow> str_or t (str ''default'')))"

definition assign :: "chapterInfo list \<Rightarrow> buckets \<Rightarrow> block \<Rightarrow> buckets" where
  "assign chapters m item =
     (let chapterId = str_or (case b_chapter item of None \<Rightarrow> [] | Some cid \<Rightarrow> cid) (str ''default'')
      in case m (Some chapterId) of
           Some items \<Rightarrow> m(Some chapterId \<mapsto> items @ [item])
         | None \<Rightarrow>
            (let d = defaultChapterId chapters;
                 m' = (if m (Some d) = None then m(Some d \<mapsto> []) else m)
             in m'(Some d \<mapsto> (case m' (Some d) of None \<Rightarrow> [] | Some items \<Rightarrow> items) @ [item])))"

definition contentByChapter :: "chapterInfo list \<Rightarrow> block list \<Rightarrow> buckets" where
  "contentByChapter chapters cont = foldl (assign chapters) (initBuckets chapters) cont"

text \<open>The files written, and what the exporter reads from its environment: the resolved
  output directory, the random UUID, the clock (the value of the \<open>k\<close>-th call of
  \<open>Date.now()\<close>), and which file-system calls succeed.\<close>

record page_entry =
  en :: jsstring
  zh :: jsstring
  e_id :: jsstring

record chapterData =
  cd_name :: jsstring
  cd_zh :: jsstring
  cd_pages :: "page_entry list list"

record bookChapter =
  bc_name :: jsstring
  bc_file :: jsstring
  bc_index :: nat
  bc_zh :: jsstring

record bookInfo =
  bi_name :: jsval
  bi_zh :: jsstring
  bi_summary :: jsval
  bi_cover :: jsstring
  bi_chapters :: "bookChapter list"
  bi_filePath :: jsstring
  bi_bookId :: jsstring

datatype json = BookInfoJson bookInfo | ChapterJson chapterData

datatype error = MkdirError jsstring | WriteError jsstring

record env =
  fullOutputDir :: jsstring
  randomUUID :: jsstring
  clock :: "nat \<Rightarrow> nat"
  mkdir_ok :: bool
  write_ok :: "jsstring \<Rightarrow> bool"

record world =
  idCounter :: nat
  clockReads :: nat
  written :: "(jsstring \<times> json) list"

record export_result =
  r_bookInfoPath :: jsstring
  r_chapterFiles :: "jsstring list"
  r_bookId :: jsstring

text \<open>\<open>path.join(dir, name)\<close> on POSIX, for a resolved directory and a file name
  without separators.\<close>

definition path_join :: "jsstring \<Rightarrow> jsstring \<Rightarrow> jsstring" where
  "path_join dir name = (if dir \<noteq> [] \<and> last dir = of_char CHR ''/'' then dir @ name
                         else dir @ str ''/'' @ name)"

definition writeFile :: "env \<Rightarrow> jsstring \<Rightarrow> json \<Rightarrow> world \<Rightarrow> error + world" where
  "writeFile e path data w =
     (if write_ok e path then Inr (w\<lparr> written := written w @ [(path, data)] \<rparr>)
      else Inl (WriteError path))"

definition nextId :: "env \<Rightarrow> world \<Rightarrow> jsstring \<times> world" where
  "nextId e w =
     (let r = generateUniqueId (clock e (clockReads w)) (idCounter w)
      in (fst r, w\<lparr> idCounter := snd r, clockReads := Suc (clockReads w) \<rparr>))"

text \<open>The page of a chapter: one entry for each block whose text is not blank.\<close>

fun currentPage :: "env \<Rightarrow> world \<Rightarrow> block list \<Rightarrow> page_entry list \<times> world" where
  "currentPage e w [] = ([], w)"
| "currentPage e w (item # items) =
     (if b_text item \<noteq> [] \<and> trim (b_text item) \<noteq> [] then
        (let (i, w1) = nextId e w;
             (page, w2) = currentPage e w1 items
         in (\<lparr> en = trim (b_text item), zh = [], e_id = i \<rparr> # page, w2))
      else currentPage e w items)"

text \<open>The loop over the chapters: the page is built, the file is written, its path is
  recorded.  Both branches of the source push one page.\<close>

fun writeChapters ::
  "env \<Rightarrow> buckets \<Rightarrow> world \<Rightarrow> chapterInfo list \<Rightarrow> error + (jsstring list \<times> world)" where
  "writeChapters e m w [] = Inr ([], w)"
| "writeChapters e m w (chapter # rest) =
     (let chapterContent = (case m (c_tocId chapter) of None \<Rightarrow> [] | Some items \<Rightarrow> items);
          (page, w1) = currentPage e w chapterContent;
          pages = (if length page > 0 then [page] else [[]]);
          chapterData = \<lparr> cd_name = c_name chapter, cd_zh = [], cd_pages = pages \<rparr>;
          chapterFilePath = path_join (fullOutputDir e) (c_file chapter @ str ''.json'')
      in case writeFile e chapterFilePath (ChapterJson chapterData) w1 of
           Inl err \<Rightarrow> Inl err
         | Inr w2 \<Rightarrow>
            (case writeChapters e m w2 rest of
               Inl err \<Rightarrow> Inl err
             | Inr (paths, w3) \<Rightarrow> Inr (chapterFilePath # paths, w3)))"

definition generateBookId :: "env \<Rightarrow> jsstring" where
  "generateBookId e = replace_all (ch CHR ''-'') [] (randomUUID e)"

definition generateBookInfoFiles ::
  "env \<Rightarrow> world \<Rightarrow> document \<Rightarrow> jsstring \<Rightarrow> error + (export_result \<times> world)" where
  "generateBookInfoFiles e w doc filePath =
     (if \<not> mkdir_ok e then Inl (MkdirError (fullOutputDir e))
      else
       (let bookId = generateBookId e;
            chapters = validChapters doc;
            bookInfo = \<lparr> bi_name = or_else (getProp (metadata doc) ''title'') (JStr (str ''Untitled'')),
                         bi_zh = [],
                         bi_summary = or_else (getProp (metadata doc) ''description'') (JStr []),
                         bi_cover = [],
                         bi_chapters = map (\<lambda>c. \<lparr> bc_name = c_name c, bc_file = c_file c,
                                                bc_index = c_index c, bc_zh = c_zh c \<rparr>) chapters,
                         bi_filePath = filePath,
                         bi_bookId = bookId \<rparr>;
            bookInfoPath = path_join (fullOutputDir e) (str ''bookinfo.json'')
        in case writeFile e bookInfoPath (BookInfoJson bookInfo) w of
             Inl err \<Rightarrow> Inl err
           | Inr w1 \<Rightarrow>
              (case writeChapters e (contentByChapter chapters (content doc)) w1 chapters of
                 Inl err \<Rightarrow> Inl err
               | Inr (paths, w2) \<Rightarrow>
                  Inr (\<lparr> r_bookInfoPath = bookInfoPath, r_chapterFiles = paths, r_bookId = bookId \<rparr>,
                       w2))))"

section \<open>pdfParser.js: dates\<close>

text \<open>A time value is a number of milliseconds since the epoch.  \<open>civil_from_days\<close>
  gives the year, month and day of the proleptic Gregorian calendar for a day number, as
  \<open>YearFromTime\<close>, \<open>MonthFromTime\<close> and \<open>DateFromTime\<close> of ECMAScript do.\<close>

definition civil_from_days :: "int \<Rightarrow> int \<times> int \<times> int" where
  "civil_from_days days =
     (let z = days + 719468;
          era = z div 146097;
          doe = z mod 146097;
          yoe = (doe - doe div 1460 + doe div 36524 - doe div 146096) div 365;
          doy = doe - (365 * yoe + yoe div 4 - yoe div 100);
          mp = (5 * doy + 2) div 153;
          d = doy - (153 * mp + 2) div 5 + 1;
          m = (if mp < 10 then mp + 3 else mp - 9);
          y = yoe + era * 400
      in (if m \<le> 2 then y + 1 else y, m, d))"

definition pad :: "nat \<Rightarrow> int \<Rightarrow> jsstring" where
  "pad n x = padStart n 48 (String (nat x))"

text \<open>\<open>Date.prototype.toISOString\<close> on a time value: four digits for the years 0 to
  9999, a sign and six digits for the others.\<close>

definition toISOString :: "int \<Rightarrow> jsstring" where
  "toISOString tv =
     (let (y, m, d) = civil_from_days (tv div 86400000);
          t = tv mod 86400000;
          year = (if 0 \<le> y \<and> y \<le> 9999 then pad 4 y
                  else (if y < 0 then str ''-'' else str ''+'') @ pad 6 \<bar>y\<bar>)
      in year @ str ''-'' @ pad 2 m @ str ''-'' @ pad 2 d @ str ''T'' @
         pad 2 (t div 3600000) @ str '':'' @ pad 2 (t div 60000 mod 60) @ str '':'' @
         pad 2 (t div 1000 mod 60) @ str ''.'' @ pad 3 (t mod 1000) @ str ''Z'')"

text \<open>\<open>new Date(s)\<close> for a string: the time value is \<open>TimeClip\<close> of what the
  engine's parser gives, and \<open>None\<close> is the invalid date (NaN).  The parser of the
  engine, \<open>Date.parse\<close>, is a parameter.\<close>

definition newDate :: "(jsstring \<Rightarrow> int option) \<Rightarrow> jsstring \<Rightarrow> int option" where
  "newDate Date_parse s =
     (case Date_parse s of
        None \<Rightarrow> None
      | Some tv \<Rightarrow> if \<bar>tv\<bar> \<le> 8640000000000000 then Some tv else None)"

datatype exn = TypeError | RangeError

text \<open>The body of the \<open>try\<close> block of \<open>safeParseDate\<close>: a value that is not a string
  has no method \<open>replace\<close>, and \<open>toISOString\<close> throws on the invalid date.
  The patterns are \<^verbatim>\<open>/^D:/\<close> and \<^verbatim>\<open>/[^\d]/g\<close>.\<close>

definition isoOf :: "jsstring \<Rightarrow> jsstring" where
  "isoOf dateStr =
     (let cleaned = padEnd 14 48
            (replace_all (Chr (\<lambda>c. \<not> isDigit c)) []
               (replace1 (seqs [Bol, lit ''D:'']) (\<lambda>g. []) dateStr))
      in slice 0 4 cleaned @ str ''-'' @ slice 4 6 cleaned @ str ''-'' @ slice 6 8 cleaned @
         str ''T'' @ slice 8 10 cleaned @ str '':'' @ slice 10 12 cleaned @ str '':'' @
         slice 12 14 cleaned @ str ''Z'')"

definition safeParseDate_try :: "(jsstring \<Rightarrow> int option) \<Rightarrow> jsval \<Rightarrow> exn + jsval" where
  "safeParseDate_try Date_parse dateStr =
     (case dateStr of
        JStr s \<Rightarrow> (case newDate Date_parse (isoOf s) of
                     None \<Rightarrow> Inl RangeError
                   | Some tv \<Rightarrow> Inr (JStr (toISOString tv)))
      | _ \<Rightarrow> Inl TypeError)"

definition safeParseDate :: "(jsstring \<Rightarrow> int option) \<Rightarrow> jsval \<Rightarrow> jsval" where
  "safeParseDate Date_parse dateStr =
     (if \<not> truthy dateStr then JNull
      else case safeParseDate_try Date_parse dateStr of
             Inl e \<Rightarrow> JNull
           | Inr v \<Rightarrow> v)"

section \<open>Notions of the specification\<close>

text \<open>The number of white-space-separated tokens of a text, that is, of its maximal runs
  of code units that are not white space; \<open>inWord\<close> tells whether the code unit before
  belongs to a token.\<close>

fun tokens_from :: "bool \<Rightarrow> jsstring \<Rightarrow> nat" where
  "tokens_from inWord [] = 0"
| "tokens_from inWord (c # cs) =
     (if isSpace c then tokens_from False cs
      else (if inWord then 0 else 1) + tokens_from True cs)"

definition tokenCount :: "jsstring \<Rightarrow> nat" where
  "tokenCount s = tokens_from False s"

text \<open>A text fits a template when it has the template's characters, with a decimal digit
  in the place of each \<open>d\<close>; the three forms of an ISO 8601 timestamp in UTC with
  milliseconds.\<close>

fun fits :: "jsstring \<Rightarrow> string \<Rightarrow> bool" where
  "fits [] [] = True"
| "fits (c # cs) (p # ps) = ((if p = CHR ''d'' then isDigit c else c = of_char p) \<and> fits cs ps)"
| "fits _ _ = False"

definition isISOTimestamp :: "jsstring \<Rightarrow> bool" where
  "isISOTimestamp s \<longleftrightarrow>
     fits s ''dddd-dd-ddTdd:dd:dd.dddZ'' \<or> fits s ''+dddddd-dd-ddTdd:dd:dd.dddZ'' \<or>
     fits s ''-dddddd-dd-ddTdd:dd:dd.dddZ''"

section \<open>Example inputs\<close>

definition segmenterExample :: jsstring where
  "segmenterExample = str ''Chapter 1'' @ [10, 10] @ str ''Hello world.'' @ [10, 10] @
     str ''Chapter 2'' @ [10, 10] @ str ''Bye.''"

definition mkHeading :: "string \<Rightarrow> string \<Rightarrow> nat \<Rightarrow> block" where
  "mkHeading i t l = \<lparr> b_id = str i, b_type = Heading, b_text = str t, b_level = Some (enat l),
     b_chapter = None, b_chapterIndex = None \<rparr>"

definition mkFragmentBlock :: "block_type \<Rightarrow> string \<Rightarrow> string \<Rightarrow> nat option \<Rightarrow> block" where
  "mkFragmentBlock ty i t l = \<lparr> b_id = str i, b_type = ty, b_text = str t,
     b_level = map_option enat l,
     b_chapter = Some (str ''c''), b_chapterIndex = Some 0 \<rparr>"

definition exampleEnv :: env where
  "exampleEnv = \<lparr> fullOutputDir = str ''/out'',
     randomUUID = str ''123e4567-e89b-12d3-a456-426614174000'',
     clock = (\<lambda>k. 1700000000123), mkdir_ok = True, write_ok = (\<lambda>p. True) \<rparr>"

definition exampleWorld :: world where
  "exampleWorld = \<lparr> idCounter = 0, clockReads = 0, written = [] \<rparr>"

text \<open>A table of contents with the titles \<open>Intro\<close> and \<open>Intro!\<close>.\<close>

definition collidingToc :: "tocItem list" where
  "collidingToc =
     [\<lparr> t_title = str ''Intro'', t_page = None, t_level = 1, t_id = Some (str ''a''),
        t_order = Some 0 \<rparr>,
      \<lparr> t_title = str ''Intro!'', t_page = None, t_level = 1, t_id = Some (str ''b''),
        t_order = Some 1 \<rparr>]"



section \<open>Evaluation\<close>

lemma replicate_numeral: "replicate (numeral k) x = x # replicate (pred_numeral k) x"
  by (simp add: numeral_eq_Suc)

lemma String_eval:
  "String 0 = [48]"
  "String (Suc n) = (if Suc n < 10 then [48 + Suc n]
                     else String (Suc n div 10) @ [48 + Suc n mod 10])"
  "String (numeral k) = (if (numeral k :: nat) < 10 then [48 + numeral k]
                         else String (numeral k div 10) @ [48 + numeral k mod 10])"
  by (rule String.simps [of 0, simplified], rule String.simps, rule String.simps)

lemmas js_defs = str_def isSpace_def isDigit_def isDot_def isUpper_def isLower_def trim_def
  split_char_def padStart_def padEnd_def slice_last_def slice_def String_eval parseInt_def decimalValue_def toNumber_def
  one_enat_def zero_enat_def numeral_eq_enat
  ch_def cu_def oneOf_def toLower1_def chi_def seqs_def lit_def liti_def many_def many1_def
  lazy_def lazy1_def opt_def test_def match_def capture_def replace1_def replace_all_def
  matchAll_def split_re_def Let_def replicate_numeral rmatch.simps replace_from.simps
  matchAll_from.simps split_from.simps

lemmas txt_defs = cjkNumeral_def sectionWord_def re_tocWord_def re_tocWordSpaced_def
  re_tocDotted_def re_tocNumbered_def re_allCaps_def re_numbered_def re_chapter_def
  re_numberPrefix_def re_separator_def levelByLength_def estimateHeadingLevel_def
  isLikelyHeading_def tocEntry_def tocMatch_def pushParagraph_def pushHeading_def
  txt_body_def txt_step_def txt_init_def extractStructureFromText_def

lemmas pdf_defs = cjkNumeral100_def re_cjkChapter_def re_cjkSection_def re_pdfMarker_def
  re_dotOrComma_def re_pdfNumbered_def re_pdfPrefix_def isHeading_def
  pdf_estimateHeadingLevel_def pdf_flush_def pdf_heading_def pdf_step_def
  extractParagraphs_def re_allCaps_def

lemmas epub_defs = notGt_def anyUnit_def oneToSix_def re_element_def re_h_def re_p_def
  stripHTML_def the_group_def addHeading_def addParagraph_def addLine_def
  extractParagraphsFromHTML_def extractContent_def

lemmas export_defs = getProp_def or_else_def toLowerCase_def toLowerUnit_def includes_str_def
  excludeKeywords_def excludeIds_def isValidChapter_def re_notSlugUnit_def re_chapterN_def
  re_spaces_def chapterNameToFileName_def str_or_def tocChapter_def tocChapters_def
  addContentChapter_def contentChapters_def defaultChapter_def validChapters_def
  initBuckets_def defaultChapterId_def assign_def contentByChapter_def path_join_def
  writeFile_def nextId_def generateBookId_def generateBookInfoFiles_def
  generateUniqueId_def the_group_def createDocumentStructure_def metadataDefaults_def
  wordsOf_def

lemmas date_defs = civil_from_days_def pad_def toISOString_def newDate_def isoOf_def
  safeParseDate_try_def safeParseDate_def isISOTimestamp_def

section \<open>The segmenter on the example of the specification\<close>

lemma segmenterExample_value:
  "fst (extractStructureFromText segmenterExample) =
     [mkHeading ''heading_0'' ''Chapter 1'' 1, mkHeading ''heading_1'' ''Hello world.'' 1,
      mkHeading ''heading_2'' ''Chapter 2'' 1, mkHeading ''heading_3'' ''Bye.'' 1]"
  by (simp add: segmenterExample_def mkHeading_def js_defs txt_defs)

text \<open>
  Claim C2, as amended.  On the text \<open>"Chapter 1\n\nHello world.\n\nChapter 2\n\nBye."\<close>
  \<open>extractStructureFromText\<close> produces exactly four blocks, in order: the headings
  \<open>Chapter 1\<close>, \<open>Hello world.\<close>, \<open>Chapter 2\<close> and \<open>Bye.\<close>, each of level 1, with
  the identifiers \<open>heading_0\<close> to \<open>heading_3\<close>.  A line shorter than 50 code units
  without an ideographic full stop or a fullwidth comma is a heading, so the two
  sentences are headings and not paragraphs.
\<close>

theorem C2_segmenter_example:
  "fst (extractStructureFromText segmenterExample) =
     [mkHeading ''heading_0'' ''Chapter 1'' 1, mkHeading ''heading_1'' ''Hello world.'' 1,
      mkHeading ''heading_2'' ''Chapter 2'' 1, mkHeading ''heading_3'' ''Bye.'' 1]"
  by (rule segmenterExample_value)

text \<open>Claim C2 as stated fails: the types, texts and levels of the blocks are not those of
  a heading, a paragraph, a heading and a paragraph.\<close>

theorem C2_segmenter_example_counterexample:
  "map (\<lambda>b. (b_type b, b_text b, b_level b)) (fst (extractStructureFromText segmenterExample)) \<noteq>
     [(Heading, str ''Chapter 1'', Some 1), (Paragraph, str ''Hello world.'', None),
      (Heading, str ''Chapter 2'', Some 1), (Paragraph, str ''Bye.'', None)]"
  by (simp add: segmenterExample_value mkHeading_def)

section \<open>The markup extractor on two fragments\<close>

text \<open>
  Claim C3 (no block has blank text) fails on the fragment \<open><h1></h1>\<close>: the heading
  loop of \<open>extractParagraphsFromHTML\<close> pushes a heading whose text is empty, where the
  paragraph loop of the same function skips a blank text.
\<close>

theorem C3_empty_heading:
  "extractParagraphsFromHTML (str ''<h1></h1>'') (str ''c'') 0 =
     [mkFragmentBlock Heading ''c_heading_0'' [] (Some 1)] \<and>
   length (trim (b_text (hd (extractParagraphsFromHTML (str ''<h1></h1>'') (str ''c'') 0)))) = 0"
  by (simp add: mkFragmentBlock_def js_defs epub_defs)

text \<open>
  Claim C7 (source order within a fragment) fails on the fragment
  \<open><p>Text.</p><h1>Intro</h1>\<close>: the heading, which comes second in the markup, is
  emitted first, because all headings are collected before all paragraphs.
\<close>

theorem C7_heading_before_earlier_paragraph:
  "extractParagraphsFromHTML (str ''<p>Text.</p><h1>Intro</h1>'') (str ''c'') 0 =
     [mkFragmentBlock Heading ''c_heading_0'' ''Intro'' (Some 1),
      mkFragmentBlock Paragraph ''c_para_1'' ''Text.'' None]"
  by (simp add: mkFragmentBlock_def js_defs epub_defs)

section \<open>Chapter files of the exporter\<close>

text \<open>
  Claim C1 (the chapter file paths of one export are pairwise distinct) fails on a table
  of contents with the titles \<open>Intro\<close> and \<open>Intro!\<close>: both chapters get the slug
  \<open>intro\<close>, and the exporter writes the same path twice.
\<close>

theorem C1_colliding_slugs_share_a_path:
  "map c_file (validChapters (createDocumentStructure Map.empty [] [] collidingToc)) =
     [str ''intro'', str ''intro''] \<and>
   (case generateBookInfoFiles exampleEnv exampleWorld
           (createDocumentStructure Map.empty [] [] collidingToc) [] of
      Inl err \<Rightarrow> False
    | Inr (r, w) \<Rightarrow>
        r_chapterFiles r = [str ''/out/intro.json'', str ''/out/intro.json''] \<and>
        map fst (written w) =
          [str ''/out/bookinfo.json'', str ''/out/intro.json'', str ''/out/intro.json''])"
  by (simp add: js_defs export_defs exampleEnv_def exampleWorld_def collidingToc_def)

section \<open>Metadata defaults\<close>








end
